theory Spec2Isabelle
  imports Main
begin

section \<open>Objects shared between the application and its service\<close>

text \<open>
  The services an application is made of (producer, consumer, sensors, agents, ...) are
  Python objects: several places hold the same object, and \<open>_components_server\<close> mutates
  the monitor that \<open>app.sensors\<close> may already contain. An object is therefore a reference
  into a heap, and the attributes the code touches live in the heap.
\<close>

type_synonym ref = nat

datatype lifecycle = Init | Starting | Started | Stopping | Stopped | Crashed | Restarting

record service_obj =
  svc_loop :: nat
  svc_beacon_parent :: "ref option"
  svc_state :: lifecycle

text \<open>
  An extra task is a callable; \<open>parameters\<close> is what \<open>inspect.signature(task).parameters\<close>
  holds, the declared parameter names in order. Calling it yields an awaitable that
  remembers the callable and the arguments of the call.
\<close>

record task =
  task_name :: string
  parameters :: "string list"

datatype argument = AppObject

datatype awaitable = Coroutine task "argument list"

text \<open>An entry of \<open>app._extra_services\<close>: a service instance, or a service class.\<close>

datatype extra_service = ServiceInstance ref | ServiceClass string

datatype error = ImproperlyConfigured string

text \<open>The calls the service makes on its collaborators, in the order it makes them.\<close>

datatype event =
    CreateDirectories
  | AppOnFirstStart
  | AppFinalize
  | AppOnStart
  | AppOnStartupFinished string
  | AppOnStarted
  | TaskCall task "argument list"
  | AddFuture awaitable
  | AddRuntimeDependency ref
  | ChildStarted ref

record App =
  client_only :: bool
  monitor :: ref
  sensors :: "ref list"
  producer :: ref
  consumer :: ref
  leader_assignor :: ref
  reply_consumer :: ref
  agents :: "(string \<times> ref) list"
  topics :: ref
  tables :: ref
  fetcher :: ref
  tasks :: "task list"
  extra_services :: "extra_service list"
  on_startup_finished :: "string option"

text \<open>
  \<open>AppService\<close>: the fields of the class (\<open>app\<close>, \<open>_extra_service_instances\<close>), the
  fields it inherits from \<open>Service\<close> and uses (\<open>loop\<close>, \<open>beacon\<close>, the children, the
  tracked futures, its own lifecycle state), and the world it acts on: the heap of
  service objects, the next free reference, whether the directories exist on disk, and
  the trace of calls.
\<close>

record AppService =
  app :: App
  loop :: nat
  beacon :: ref
  extra_service_instances :: "ref list option"
  children :: "ref list"
  futures :: "awaitable list"
  lifecycle_state :: lifecycle
  first_start_done :: bool
  heap :: "ref \<Rightarrow> service_obj"
  next_ref :: ref
  directories_created :: bool
  trace :: "event list"

definition emit :: "event \<Rightarrow> AppService \<Rightarrow> AppService" where
  "emit e s = s\<lparr>trace := trace s @ [e]\<rparr>"

section \<open>Collaborators that are not among the sources\<close>

definition reattach :: "ref \<Rightarrow> ref \<Rightarrow> AppService \<Rightarrow> AppService" where
  \<comment> \<open>Modelled from the spec: \<open>beacon.reattach\<close> of the service base class is missing. The
     spec: each node has at most one parent, and the sensor's supervision link is
     re-parented to the orchestrator.\<close>
  "reattach node parent s =
     s\<lparr>heap := (heap s)(node := (heap s node)\<lparr>svc_beacon_parent := Some parent\<rparr>)\<rparr>"

definition sensors_add :: "ref \<Rightarrow> ref list \<Rightarrow> ref list" where
  \<comment> \<open>Modelled from the spec: the class of \<open>app.sensors\<close> and its \<open>add\<close> are missing. The
     spec: a mutable ordered collection to which the monitor is appended, and in which it
     is present exactly once even when it was registered before. So \<open>add\<close> appends a sensor
     that is not yet a member and leaves the collection alone otherwise.\<close>
  "sensors_add x xs = (if x \<in> set xs then xs else xs @ [x])"

definition create_directories :: "AppService \<Rightarrow> AppService" where
  \<comment> \<open>Modelled from the spec: \<open>app._create_directories\<close> is missing. The spec: it creates
     the required on-disk directories.\<close>
  "create_directories s = emit CreateDirectories (s\<lparr>directories_created := True\<rparr>)"

definition add_future :: "awaitable \<Rightarrow> AppService \<Rightarrow> AppService" where
  \<comment> \<open>Modelled from the spec: \<open>add_future\<close> of the service base class is missing. The spec:
     the unit of work is registered as a tracked background activity of the
     orchestrator.\<close>
  "add_future target s = emit (AddFuture target) (s\<lparr>futures := futures s @ [target]\<rparr>)"

definition add_runtime_dependency :: "ref \<Rightarrow> AppService \<Rightarrow> AppService" where
  \<comment> \<open>Modelled from the spec: \<open>add_runtime_dependency\<close> of the service base class is
     missing. The spec: the service is added to the live dependency graph and started
     immediately.\<close>
  "add_runtime_dependency service s =
     emit (AddRuntimeDependency service)
       (s\<lparr>children := children s @ [service],
          heap := (heap s)(service := (heap s service)\<lparr>svc_state := Started\<rparr>)\<rparr>)"

text \<open>
  The hooks of the application (\<open>app.on_first_start\<close>, \<open>app.finalize\<close>, \<open>app.on_start\<close>,
  \<open>app.on_startup_finished\<close>, \<open>app.on_started\<close>) and the extra tasks are code of the user:
  a call is recorded in the trace and has no other effect here.
\<close>

definition call_task :: "task \<Rightarrow> argument list \<Rightarrow> AppService \<Rightarrow> awaitable \<times> AppService" where
  "call_task t args s = (Coroutine t args, emit (TaskCall t args) s)"

section \<open>faust/app/service.py\<close>

definition components_client :: "AppService \<Rightarrow> ref list" where
  "components_client s =
     [producer (app s), consumer (app s), reply_consumer (app s), topics (app s),
      fetcher (app s)]"

definition components_server :: "AppService \<Rightarrow> ref list \<times> AppService" where
  "components_server s =
     (let s1 = reattach (monitor (app s)) (beacon s) s;
          s2 = s1\<lparr>heap := (heap s1)(monitor (app s1) :=
                  (heap s1 (monitor (app s1)))\<lparr>svc_loop := loop s1\<rparr>)\<rparr>;
          s3 = s2\<lparr>app := (app s2)\<lparr>sensors :=
                  sensors_add (monitor (app s2)) (sensors (app s2))\<rparr>\<rparr>
      in (sensors (app s3)
            @ [producer (app s3)]
            @ [consumer (app s3)]
            @ [leader_assignor (app s3)]
            @ [reply_consumer (app s3)]
            @ map snd (agents (app s3))
            @ [topics (app s3)]
            @ [tables (app s3)]
            @ [fetcher (app s3)],
          s3))"

definition on_init_dependencies :: "AppService \<Rightarrow> ref list \<times> AppService" where
  "on_init_dependencies s =
     (if client_only (app s) then (components_client s, s) else components_server s)"

definition on_first_start :: "AppService \<Rightarrow> (error + unit) \<times> AppService" where
  "on_first_start s =
     (let s1 = create_directories s
      in if agents (app s1) = []
         then (Inl (ImproperlyConfigured ''Attempting to start app that has no agents''), s1)
         else (Inr (), emit AppOnFirstStart s1))"

definition on_start :: "AppService \<Rightarrow> AppService" where
  "on_start s = emit AppOnStart (emit AppFinalize s)"

primrec init_extra_tasks_loop :: "task list \<Rightarrow> AppService \<Rightarrow> AppService" where
  "init_extra_tasks_loop [] s = s"
| "init_extra_tasks_loop (t # ts) s =
     (let (target, s1) =
            (if parameters t \<noteq> [] then call_task t [AppObject] s else call_task t [] s)
      in init_extra_tasks_loop ts (add_future target s1))"

definition on_started_init_extra_tasks :: "AppService \<Rightarrow> AppService" where
  "on_started_init_extra_tasks s = init_extra_tasks_loop (tasks (app s)) s"

fun prepare_subservice :: "extra_service \<Rightarrow> AppService \<Rightarrow> ref \<times> AppService" where
  "prepare_subservice (ServiceClass c) s =
     (next_ref s,
      s\<lparr>heap := (heap s)(next_ref s :=
           \<lparr>svc_loop = loop s, svc_beacon_parent = Some (beacon s), svc_state = Init\<rparr>),
        next_ref := Suc (next_ref s)\<rparr>)"
| "prepare_subservice (ServiceInstance r) s = (r, s)"

primrec prepare_subservices :: "extra_service list \<Rightarrow> AppService \<Rightarrow> ref list \<times> AppService" where
  "prepare_subservices [] s = ([], s)"
| "prepare_subservices (x # xs) s =
     (let (r, s1) = prepare_subservice x s;
          (rs, s2) = prepare_subservices xs s1
      in (r # rs, s2))"

primrec add_runtime_dependencies :: "ref list \<Rightarrow> AppService \<Rightarrow> AppService" where
  "add_runtime_dependencies [] s = s"
| "add_runtime_dependencies (r # rs) s =
     add_runtime_dependencies rs (add_runtime_dependency r s)"

definition on_started_init_extra_services :: "AppService \<Rightarrow> AppService" where
  "on_started_init_extra_services s =
     (if extra_service_instances s = None
      then (let (instances, s1) = prepare_subservices (extra_services (app s)) s;
                s2 = s1\<lparr>extra_service_instances := Some instances\<rparr>
            in add_runtime_dependencies instances s2)
      else s)"

definition on_started :: "bool \<Rightarrow> AppService \<Rightarrow> AppService" where
  \<comment> \<open>\<open>stopped\<close> is what \<open>await self.wait_for_stopped(recovery_completed)\<close> returned: true
     when the wait ended because the service was stopped.\<close>
  "on_started stopped s =
     (if \<not> stopped
      then (let s1 = on_started_init_extra_tasks s;
                s2 = on_started_init_extra_services s1;
                s3 = (case on_startup_finished (app s2) of
                        Some cb \<Rightarrow> emit (AppOnStartupFinished cb) s2
                      | None \<Rightarrow> s2)
            in emit AppOnStarted s3)
      else s)"

section \<open>Starting the service\<close>

primrec start_children :: "ref list \<Rightarrow> AppService \<Rightarrow> AppService" where
  "start_children [] s = s"
| "start_children (c # cs) s =
     start_children cs
       (emit (ChildStarted c)
          (s\<lparr>heap := (heap s)(c := (heap s c)\<lparr>svc_state := Started\<rparr>)\<rparr>))"

definition start :: "bool \<Rightarrow> AppService \<Rightarrow> (error + unit) \<times> AppService" where
  \<comment> \<open>Modelled from the spec: \<open>Service.start\<close> of the service base class is missing. The
     spec: the node goes from init to starting; the dependency graph is resolved and
     fixed when starting begins; the first-start hook runs on the very first start only
     and its error aborts the start before any child starts; the children are started
     one after the other in declared order; then the node's start hook runs, the node is
     started, and the started hook runs. The hooks are those of the source.\<close>
  "start stopped s =
     (let s1 = s\<lparr>lifecycle_state := Starting\<rparr>;
          (r, s2) =
            (if first_start_done s1 then (Inr (), s1)
             else (let (deps, t) = on_init_dependencies s1
                   in on_first_start (t\<lparr>children := children t @ deps\<rparr>)))
      in case r of
           Inl e \<Rightarrow> (Inl e, s2)
         | Inr _ \<Rightarrow>
             (let s3 = start_children (children s2) s2;
                  s4 = on_start s3;
                  s5 = s4\<lparr>lifecycle_state := Started, first_start_done := True\<rparr>
              in (Inr (), on_started stopped s5)))"

section \<open>faust/web/base.py\<close>

record Web =
  bind :: string
  port :: int

definition digit_char :: "nat \<Rightarrow> char" where
  "digit_char d = ''0123456789'' ! d"

fun str_nat :: "nat \<Rightarrow> string" where
  "str_nat n = (if n < 10 then [digit_char n] else str_nat (n div 10) @ [digit_char (n mod 10)])"

declare str_nat.simps [simp del]

definition str_int :: "int \<Rightarrow> string" where
  \<comment> \<open>What \<open>'{}'.format\<close> writes for an \<open>int\<close>: its decimal digits, after a minus sign when
     it is negative.\<close>
  "str_int i = (if i < 0 then CHR ''-'' # str_nat (nat (- i)) else str_nat (nat i))"

definition url :: "Web \<Rightarrow> string" where
  "url w = ''http://localhost:'' @ str_int (port w) @ ''/''"

section \<open>A concrete application\<close>

text \<open>
  A server-mode application whose user registered the monitor (object 1) as a sensor
  beforehand, with one agent, a task without parameters and a task taking the
  application, and two extra services: an instance and a class.
\<close>

definition example_heap :: "ref \<Rightarrow> service_obj" where
  "example_heap = (\<lambda>_. \<lparr>svc_loop = 0, svc_beacon_parent = None, svc_state = Init\<rparr>)"

definition example_app :: App where
  "example_app =
     \<lparr>client_only = False, monitor = 1, sensors = [1, 2], producer = 3, consumer = 4,
      leader_assignor = 5, reply_consumer = 6, agents = [(''mailer'', 7)], topics = 8,
      tables = 9, fetcher = 10,
      tasks = [\<lparr>task_name = ''tick'', parameters = []\<rparr>,
               \<lparr>task_name = ''report'', parameters = [''app'']\<rparr>],
      extra_services = [ServiceInstance 11, ServiceClass ''Janitor''],
      on_startup_finished = Some ''ready''\<rparr>"

definition example_service :: AppService where
  "example_service =
     \<lparr>app = example_app, loop = 1, beacon = 0, extra_service_instances = None,
      children = [], futures = [], lifecycle_state = Init, first_start_done = False,
      heap = example_heap, next_ref = 12, directories_created = False, trace = []\<rparr>"

section \<open>How each step changes the state\<close>


lemma init_extra_tasks_loop_eq:
  "init_extra_tasks_loop ts s =
     s\<lparr>futures := futures s @
          map (\<lambda>t. Coroutine t (if parameters t \<noteq> [] then [AppObject] else [])) ts,
       trace := trace s @
          concat (map (\<lambda>t. [TaskCall t (if parameters t \<noteq> [] then [AppObject] else []),
                            AddFuture (Coroutine t (if parameters t \<noteq> [] then [AppObject] else []))]) ts)\<rparr>"
  by (induction ts arbitrary: s) (simp_all add: call_task_def add_future_def emit_def)


lemma prepare_subservice_frame:
  "snd (prepare_subservice x s) =
     s\<lparr>heap := heap (snd (prepare_subservice x s)),
       next_ref := next_ref (snd (prepare_subservice x s))\<rparr>"
  by (cases x) simp_all

lemma prepare_subservices_frame:
  "snd (prepare_subservices xs s) =
     s\<lparr>heap := heap (snd (prepare_subservices xs s)),
       next_ref := next_ref (snd (prepare_subservices xs s))\<rparr>"
proof (induction xs arbitrary: s)
  case Nil
  show ?case by simp
next
  case (Cons x xs)
  obtain r s1 where p: "prepare_subservice x s = (r, s1)" by (cases "prepare_subservice x s")
  obtain rs s2 where q: "prepare_subservices xs s1 = (rs, s2)" by (cases "prepare_subservices xs s1")
  have a: "s1 = s\<lparr>heap := heap s1, next_ref := next_ref s1\<rparr>"
    using prepare_subservice_frame [of x s] p by simp
  have b: "s2 = s1\<lparr>heap := heap s2, next_ref := next_ref s2\<rparr>"
    using Cons.IH [of s1] q by simp
  have "s2 = s\<lparr>heap := heap s2, next_ref := next_ref s2\<rparr>"
    by (subst b, subst a) simp
  then show ?case using p q by simp
qed

lemma add_runtime_dependencies_eq:
  "add_runtime_dependencies rs s =
     s\<lparr>children := children s @ rs,
       heap := fold (\<lambda>r h. h(r := (h r)\<lparr>svc_state := Started\<rparr>)) rs (heap s),
       trace := trace s @ map AddRuntimeDependency rs\<rparr>"
  by (induction rs arbitrary: s) (simp_all add: add_runtime_dependency_def emit_def)


lemma app_start_children: "app (start_children cs s) = app s"
  by (induction cs arbitrary: s) (simp_all add: emit_def)

lemma extra_services_fresh:
  assumes "extra_service_instances s = None"
  shows "on_started_init_extra_services s =
           add_runtime_dependencies (fst (prepare_subservices (extra_services (app s)) s))
             ((snd (prepare_subservices (extra_services (app s)) s))
                \<lparr>extra_service_instances :=
                   Some (fst (prepare_subservices (extra_services (app s)) s))\<rparr>)"
  using assms by (simp add: on_started_init_extra_services_def Let_def split: prod.splits)

lemma extra_services_done:
  assumes "extra_service_instances s \<noteq> None"
  shows "on_started_init_extra_services s = s"
  using assms by (auto simp add: on_started_init_extra_services_def)

lemma extra_services_fields:
  "app (on_started_init_extra_services s) = app s"
  "futures (on_started_init_extra_services s) = futures s"
  "extra_service_instances (on_started_init_extra_services s) \<noteq> None"
proof -
  let ?p = "prepare_subservices (extra_services (app s)) s"
  have f: "snd ?p = s\<lparr>heap := heap (snd ?p), next_ref := next_ref (snd ?p)\<rparr>"
    by (rule prepare_subservices_frame)
  show "app (on_started_init_extra_services s) = app s"
  proof (cases "extra_service_instances s")
    case None
    show ?thesis
      by (subst extra_services_fresh [OF None], subst add_runtime_dependencies_eq, subst f) simp
  next
    case (Some a)
    then show ?thesis by (simp add: extra_services_done)
  qed
  show "futures (on_started_init_extra_services s) = futures s"
  proof (cases "extra_service_instances s")
    case None
    show ?thesis
      by (subst extra_services_fresh [OF None], subst add_runtime_dependencies_eq, subst f) simp
  next
    case (Some a)
    then show ?thesis by (simp add: extra_services_done)
  qed
  show "extra_service_instances (on_started_init_extra_services s) \<noteq> None"
  proof (cases "extra_service_instances s")
    case None
    show ?thesis
      by (subst extra_services_fresh [OF None], subst add_runtime_dependencies_eq) simp
  next
    case (Some a)
    then show ?thesis by (simp add: extra_services_done)
  qed
qed



lemma extra_tasks_fields:
  "app (on_started_init_extra_tasks s) = app s"
  "extra_service_instances (on_started_init_extra_tasks s) = extra_service_instances s"
  "children (on_started_init_extra_tasks s) = children s"
  "heap (on_started_init_extra_tasks s) = heap s"
  "next_ref (on_started_init_extra_tasks s) = next_ref s"
  by (simp_all add: on_started_init_extra_tasks_def init_extra_tasks_loop_eq)

lemma app_on_started: "app (on_started stopped s) = app s"
  by (simp add: on_started_def Let_def emit_def extra_services_fields extra_tasks_fields
      split: option.splits)

lemma app_on_first_start: "app (snd (on_first_start s)) = app s"
  by (simp add: on_first_start_def Let_def create_directories_def emit_def)

lemma app_start:
  "app (snd (start stopped s)) =
     (if first_start_done s then app s else app (snd (on_init_dependencies s)))"
proof (cases "first_start_done s")
  case True
  then show ?thesis
    by (simp add: start_def Let_def on_start_def emit_def app_on_started app_start_children)
next
  case False
  let ?s1 = "s\<lparr>lifecycle_state := Starting\<rparr>"
  obtain deps t where d: "on_init_dependencies ?s1 = (deps, t)"
    by (cases "on_init_dependencies ?s1")
  obtain r s2 where f: "on_first_start (t\<lparr>children := children t @ deps\<rparr>) = (r, s2)"
    by (cases "on_first_start (t\<lparr>children := children t @ deps\<rparr>)")
  have a2: "app s2 = app t"
    using app_on_first_start [of "t\<lparr>children := children t @ deps\<rparr>"] f by simp
  have at: "app t = app (snd (on_init_dependencies s))"
    using d
    by (auto simp add: on_init_dependencies_def components_server_def components_client_def
        reattach_def Let_def split: if_splits)
  have "app (snd (start stopped s)) = app s2"
    using False d f
    by (cases r) (simp_all add: start_def Let_def on_start_def emit_def app_on_started
        app_start_children)
  then show ?thesis using False a2 at by simp
qed



lemma str_nat_6066: "str_nat 6066 = ''6066''"
  by (simp add: str_nat.simps [of 6066] str_nat.simps [of 606] str_nat.simps [of 60]
      str_nat.simps [of 6] digit_char_def)

lemma digit_char_inj:
  assumes "a < 10" and "b < 10" and "digit_char a = digit_char b"
  shows "a = b"
proof -
  have d: "distinct ''0123456789''" by simp
  have l: "length ''0123456789'' = 10" by simp
  show ?thesis
    using assms nth_eq_iff_index_eq [OF d, of a b] by (simp add: digit_char_def)
qed

lemma digit_char_not_minus:
  assumes "a < 10"
  shows "digit_char a \<noteq> CHR ''-''"
proof -
  have "''0123456789'' ! a \<in> set ''0123456789''"
    using assms by (intro nth_mem) simp
  then show ?thesis by (auto simp add: digit_char_def)
qed

lemma str_nat_not_Nil: "str_nat n \<noteq> []"
  by (subst str_nat.simps) simp

lemma str_nat_no_minus: "CHR ''-'' \<notin> set (str_nat n)"
proof (induction n rule: str_nat.induct)
  case (1 n)
  show ?case
  proof (cases "n < 10")
    case True
    then show ?thesis
      using digit_char_not_minus [of n] by (subst str_nat.simps) auto
  next
    case False
    have "n mod 10 < 10" by simp
    then have "digit_char (n mod 10) \<noteq> CHR ''-''" by (rule digit_char_not_minus)
    then show ?thesis
      using False "1.IH" by (subst str_nat.simps) auto
  qed
qed

lemma str_nat_inj: "str_nat m = str_nat n \<Longrightarrow> m = n"
proof (induction m arbitrary: n rule: str_nat.induct)
  case (1 m)
  show ?case
  proof (cases "m < 10")
    case m: True
    show ?thesis
    proof (cases "n < 10")
      case True
      then show ?thesis
        using m "1.prems" digit_char_inj [of m n]
        by (simp add: str_nat.simps [of m] str_nat.simps [of n])
    next
      case False
      then show ?thesis
        using m "1.prems" str_nat_not_Nil [of "n div 10"]
        by (simp add: str_nat.simps [of m] str_nat.simps [of n])
    qed
  next
    case m: False
    show ?thesis
    proof (cases "n < 10")
      case True
      then show ?thesis
        using m "1.prems" str_nat_not_Nil [of "m div 10"]
        by (simp add: str_nat.simps [of m] str_nat.simps [of n])
    next
      case False
      have e: "str_nat (m div 10) = str_nat (n div 10) \<and>
               digit_char (m mod 10) = digit_char (n mod 10)"
        using m False "1.prems" by (simp add: str_nat.simps [of m] str_nat.simps [of n])
      have q: "m div 10 = n div 10" using "1.IH" [OF m] e by simp
      have r: "m mod 10 = n mod 10" using e digit_char_inj [of "m mod 10" "n mod 10"] by simp
      show ?thesis using q r by (metis div_mult_mod_eq)
    qed
  qed
qed

lemma str_int_inj: "str_int i = str_int j \<Longrightarrow> i = j"
proof -
  assume e: "str_int i = str_int j"
  have h: "hd (str_nat k) \<noteq> CHR ''-''" for k
    using str_nat_no_minus [of k] str_nat_not_Nil [of k] by (cases "str_nat k") auto
  show ?thesis
  proof (cases "i < 0")
    case i: True
    show ?thesis
    proof (cases "j < 0")
      case True
      then have "str_nat (nat (- i)) = str_nat (nat (- j))" using i e by (simp add: str_int_def)
      then have "nat (- i) = nat (- j)" by (rule str_nat_inj)
      then show ?thesis using i True by simp
    next
      case False
      then have "CHR ''-'' # str_nat (nat (- i)) = str_nat (nat j)" using i e by (simp add: str_int_def)
      then have "hd (str_nat (nat j)) = CHR ''-''" by (metis list.sel(1))
      then show ?thesis using h by simp
    qed
  next
    case i: False
    show ?thesis
    proof (cases "j < 0")
      case True
      then have "str_nat (nat i) = CHR ''-'' # str_nat (nat (- j))" using i e by (simp add: str_int_def)
      then have "hd (str_nat (nat i)) = CHR ''-''" by (metis list.sel(1))
      then show ?thesis using h by simp
    next
      case False
      then have "str_nat (nat i) = str_nat (nat j)" using i e by (simp add: str_int_def)
      then have "nat i = nat j" by (rule str_nat_inj)
      then show ?thesis using i False by simp
    qed
  qed
qed

section \<open>The claims\<close>

text \<open>
  C1. An application with no registered agent cannot be started: the first start fails
  with \<open>ImproperlyConfigured\<close>, which \<open>start\<close> hands to its caller, and no child is started
  (the state of every service object is what it was before, the orchestrator itself
  stays in \<open>Starting\<close>, and the only call made is the creation of the directories). The
  source does not look at the mode before it raises, so this holds in server mode and in
  client-only mode alike. The check of the agents is the source's \<open>on_first_start\<close>; the
  place of that hook in \<open>start\<close>, before the children, is the spec's.
\<close>

theorem start_without_agents:
  assumes "agents (app s) = []" and "\<not> first_start_done s"
  shows "fst (start stopped s) =
           Inl (ImproperlyConfigured ''Attempting to start app that has no agents'')
       \<and> (\<forall>r. svc_state (heap (snd (start stopped s)) r) = svc_state (heap s r))
       \<and> lifecycle_state (snd (start stopped s)) = Starting
       \<and> trace (snd (start stopped s)) = trace s @ [CreateDirectories]"
  using assms
  by (simp add: start_def on_init_dependencies_def components_client_def
      components_server_def reattach_def on_first_start_def create_directories_def
      emit_def Let_def)

theorem start_without_agents_witness:
  "agents (app (example_service\<lparr>app := example_app\<lparr>agents := []\<rparr>\<rparr>)) = []
   \<and> \<not> first_start_done (example_service\<lparr>app := example_app\<lparr>agents := []\<rparr>\<rparr>)
   \<and> \<not> client_only (app (example_service\<lparr>app := example_app\<lparr>agents := []\<rparr>\<rparr>))
   \<and> fst (start False (example_service\<lparr>app := example_app\<lparr>agents := []\<rparr>\<rparr>)) =
         Inl (ImproperlyConfigured ''Attempting to start app that has no agents'')
   \<and> trace (snd (start False (example_service\<lparr>app := example_app\<lparr>agents := []\<rparr>\<rparr>))) =
         [CreateDirectories]"
  using start_without_agents [of "example_service\<lparr>app := example_app\<lparr>agents := []\<rparr>\<rparr>" False]
  by (simp add: example_service_def example_app_def)

text \<open>
  C2. In client-only mode the resolved dependency graph is exactly the five components
  producer, consumer, reply consumer, topics, fetcher, in that order; resolving it
  changes nothing; and the sensors, the agents, the leader assignor, the table manager
  and the monitor do not enter it: replacing them by anything else gives the same graph.
\<close>

theorem client_only_graph:
  assumes "client_only (app s)"
  shows "on_init_dependencies s =
           ([producer (app s), consumer (app s), reply_consumer (app s), topics (app s),
             fetcher (app s)], s)
       \<and> length (fst (on_init_dependencies s)) = 5
       \<and> fst (on_init_dependencies
                (s\<lparr>app := (app s)\<lparr>sensors := ss, agents := ags, leader_assignor := la,
                                 tables := tm, monitor := m\<rparr>\<rparr>)) =
           fst (on_init_dependencies s)"
  using assms by (simp add: on_init_dependencies_def components_client_def)

theorem client_only_graph_witness:
  "client_only (app (example_service\<lparr>app := example_app\<lparr>client_only := True\<rparr>\<rparr>))
   \<and> on_init_dependencies (example_service\<lparr>app := example_app\<lparr>client_only := True\<rparr>\<rparr>) =
       ([3, 4, 6, 8, 10], example_service\<lparr>app := example_app\<lparr>client_only := True\<rparr>\<rparr>)"
  using client_only_graph [of "example_service\<lparr>app := example_app\<lparr>client_only := True\<rparr>\<rparr>"]
  by (simp add: example_service_def example_app_def)

text \<open>
  C3. In server mode the resolved dependency graph is: the sensors (the collection as it
  is after the monitor was added, so every sensor registered before is among them), then
  producer, consumer, leader assignor, reply consumer, then the agents in the order of
  \<open>app.agents.values()\<close>, then topics, tables, and the fetcher last.
\<close>

theorem server_graph:
  assumes "\<not> client_only (app s)"
  shows "fst (on_init_dependencies s) =
           sensors (app (snd (on_init_dependencies s)))
           @ [producer (app s), consumer (app s), leader_assignor (app s),
              reply_consumer (app s)]
           @ map snd (agents (app s))
           @ [topics (app s), tables (app s), fetcher (app s)]
       \<and> sensors (app (snd (on_init_dependencies s))) =
           sensors_add (monitor (app s)) (sensors (app s))
       \<and> set (sensors (app s)) \<subseteq> set (sensors (app (snd (on_init_dependencies s))))"
  using assms
  by (auto simp add: on_init_dependencies_def components_server_def reattach_def Let_def
      sensors_add_def)

theorem server_graph_witness:
  "\<not> client_only (app example_service)
   \<and> fst (on_init_dependencies example_service) = [1, 2, 3, 4, 5, 6, 7, 8, 9, 10]"
  using server_graph [of example_service]
  by (simp add: example_service_def example_app_def sensors_add_def)

text \<open>
  C4. In server mode, resolving the dependency graph sets the parent of the monitor's
  beacon to the beacon of the orchestrator, sets the monitor's loop to the orchestrator's
  loop and adds the monitor to \<open>app.sensors\<close>; nothing that \<open>start\<close> does afterwards
  touches the sensors, so after a first \<open>start\<close> the monitor is in the collection exactly
  once, also when the user had put it there before. The sensor collection holds no
  sensor twice to begin with (\<open>distinct\<close>); \<open>sensors_add\<close>, \<open>reattach\<close> and \<open>start\<close>
  are modelled from the spec.
\<close>

theorem server_monitor_once:
  assumes "\<not> client_only (app s)" and "distinct (sensors (app s))"
    and "\<not> first_start_done s"
  shows "svc_beacon_parent (heap (snd (on_init_dependencies s)) (monitor (app s))) =
           Some (beacon s)
       \<and> svc_loop (heap (snd (on_init_dependencies s)) (monitor (app s))) = loop s
       \<and> sensors (app (snd (on_init_dependencies s))) =
           sensors_add (monitor (app s)) (sensors (app s))
       \<and> sensors (app (snd (start stopped s))) =
           sensors_add (monitor (app s)) (sensors (app s))
       \<and> monitor (app (snd (start stopped s))) = monitor (app s)
       \<and> count_list (sensors (app (snd (start stopped s)))) (monitor (app s)) = 1"
proof -
  have c: "count_list (sensors_add x xs) x = 1" if "distinct xs" for x :: ref and xs
    using that by (induction xs) (auto simp add: sensors_add_def split: if_splits)
  have a: "app (snd (on_init_dependencies s)) =
             (app s)\<lparr>sensors := sensors_add (monitor (app s)) (sensors (app s))\<rparr>"
    using assms(1)
    by (simp add: on_init_dependencies_def components_server_def reattach_def Let_def)
  have h: "heap (snd (on_init_dependencies s)) (monitor (app s)) =
             (heap s (monitor (app s)))\<lparr>svc_beacon_parent := Some (beacon s),
                                        svc_loop := loop s\<rparr>"
    using assms(1)
    by (simp add: on_init_dependencies_def components_server_def reattach_def Let_def)
  have b: "app (snd (start stopped s)) = app (snd (on_init_dependencies s))"
    using assms(3) by (simp add: app_start)
  show ?thesis
    using c [OF assms(2), of "monitor (app s)"] by (simp add: a h b)
qed

theorem server_monitor_once_witness:
  "\<not> client_only (app example_service) \<and> distinct (sensors (app example_service))
   \<and> \<not> first_start_done example_service
   \<and> monitor (app example_service) \<in> set (sensors (app example_service))
   \<and> sensors (app (snd (start False example_service))) = [1, 2]
   \<and> count_list (sensors (app (snd (start False example_service)))) 1 = 1"
  using server_monitor_once [of example_service False]
  by (simp add: example_service_def example_app_def sensors_add_def)

text \<open>
  C5. When the wait on the recovery barrier in \<open>on_started\<close> ends because the service
  was stopped (\<open>wait_for_stopped\<close> returns true), \<open>on_started\<close> does nothing at all: the
  state is what it was, so no extra task was called or registered as a future, no extra
  service was instantiated, added or started, and neither \<open>on_startup_finished\<close> nor the
  application's \<open>on_started\<close> was called.
\<close>

theorem on_started_after_stop:
  "on_started True s = s
   \<and> futures (on_started True s) = futures s
   \<and> extra_service_instances (on_started True s) = extra_service_instances s
   \<and> children (on_started True s) = children s
   \<and> heap (on_started True s) = heap s
   \<and> trace (on_started True s) = trace s"
  by (simp add: on_started_def)







text \<open>
  C10. \<open>on_first_start\<close> calls \<open>app._create_directories\<close> first, whatever the agents: the
  directories exist afterwards and the call is the first one it makes. With no agent
  registered it then raises \<open>ImproperlyConfigured\<close>, and the state it leaves behind is the
  one with the directories created.
\<close>

theorem on_first_start_creates_directories:
  "directories_created (snd (on_first_start s))
   \<and> (\<exists>rest. trace (snd (on_first_start s)) = trace s @ CreateDirectories # rest)
   \<and> (agents (app s) = [] \<longrightarrow>
        on_first_start s =
          (Inl (ImproperlyConfigured ''Attempting to start app that has no agents''),
           s\<lparr>directories_created := True, trace := trace s @ [CreateDirectories]\<rparr>))"
  by (simp add: on_first_start_def create_directories_def emit_def Let_def)

theorem on_first_start_creates_directories_witness:
  "agents (app (example_service\<lparr>app := example_app\<lparr>agents := []\<rparr>\<rparr>)) = []
   \<and> \<not> directories_created (example_service\<lparr>app := example_app\<lparr>agents := []\<rparr>\<rparr>)
   \<and> fst (on_first_start (example_service\<lparr>app := example_app\<lparr>agents := []\<rparr>\<rparr>)) =
       Inl (ImproperlyConfigured ''Attempting to start app that has no agents'')
   \<and> directories_created (snd (on_first_start (example_service\<lparr>app := example_app\<lparr>agents := []\<rparr>\<rparr>)))"
  using on_first_start_creates_directories [of "example_service\<lparr>app := example_app\<lparr>agents := []\<rparr>\<rparr>"]
  by (simp add: example_service_def example_app_def)

text \<open>
  C9, as the claim states it, fails: the host of the \<open>url\<close> is not taken from the bound
  address. A facade bound to 0.0.0.0 on port 6066 has the url http://localhost:6066/.
\<close>

theorem url_not_from_bind:
  "url \<lparr>bind = ''0.0.0.0'', port = 6066\<rparr> = ''http://localhost:6066/''
   \<and> url \<lparr>bind = ''0.0.0.0'', port = 6066\<rparr>
       \<noteq> ''http://'' @ bind \<lparr>bind = ''0.0.0.0'', port = 6066\<rparr> @ '':''
           @ str_int (port \<lparr>bind = ''0.0.0.0'', port = 6066\<rparr>) @ ''/''"
  by (simp add: url_def str_int_def str_nat_6066)

text \<open>
  C9, amended. The \<open>url\<close> of a Web facade is \<open>http://localhost:\<close>, the port in decimal,
  and a slash; the host is always the literal localhost, and the bound address \<open>bind\<close>
  does not enter: changing it leaves the url as it is, and two facades have the same url
  exactly when they have the same port.
\<close>

theorem url_localhost:
  "url w = ''http://localhost:'' @ str_int (port w) @ ''/''
   \<and> url (w\<lparr>bind := b\<rparr>) = url w
   \<and> (url w = url w') = (port w = port w')"
  using str_int_inj [of "port w" "port w'"] by (auto simp add: url_def)

end
